theory Spec2Isabelle
  imports Main
begin

section \<open>Python values used by build\_package.py\<close>

text \<open>
  The script is modelled as Python 3 runs it. A Python \<open>str\<close> is a
  \<^typ>\<open>string\<close>, one \<^typ>\<open>char\<close> for each code point; the model covers text
  whose code points are below 256. The character classes below are the ones
  \<open>str.splitlines\<close> and \<open>str.split\<close> use on that range.
\<close>

definition is_linebreak :: "char \<Rightarrow> bool" where
  "is_linebreak c \<longleftrightarrow>
     c \<in> {CHR 0x0A, CHR 0x0B, CHR 0x0C, CHR 0x0D, CHR 0x1C, CHR 0x1D, CHR 0x1E, CHR 0x85}"

definition is_space :: "char \<Rightarrow> bool" where
  "is_space c \<longleftrightarrow>
     c \<in> {CHR 0x09, CHR 0x0A, CHR 0x0B, CHR 0x0C, CHR 0x0D, CHR 0x1C, CHR 0x1D, CHR 0x1E,
          CHR 0x1F, CHR 0x20, CHR 0x85, CHR 0xA0}"

text \<open>\<open>s.startswith(p)\<close>\<close>

fun startswith :: "string \<Rightarrow> string \<Rightarrow> bool" where
  "startswith s [] = True"
| "startswith [] (p # ps) = False"
| "startswith (c # s) (p # ps) = (c = p \<and> startswith s ps)"

text \<open>\<open>s.endswith(p)\<close>\<close>

definition endswith :: "string \<Rightarrow> string \<Rightarrow> bool" where
  "endswith s p = startswith (rev s) (rev p)"

text \<open>
  \<open>s.splitlines()\<close>: a line ends at a line boundary, \<open>\r\n\<close> counts as one
  boundary, the boundaries are dropped, and a last line with no boundary after it is kept
  when it is not empty. The first argument holds the characters of the line being read,
  last one first.
\<close>

fun lines_from :: "string \<Rightarrow> string \<Rightarrow> string list" where
  "lines_from acc [] = (if acc = [] then [] else [rev acc])"
| "lines_from acc [c] =
     (if is_linebreak c then [rev acc] else lines_from (c # acc) [])"
| "lines_from acc (c # d # cs) =
     (if c = CHR 0x0D \<and> d = CHR 0x0A then rev acc # lines_from [] cs
      else if is_linebreak c then rev acc # lines_from [] (d # cs)
      else lines_from (c # acc) (d # cs))"

definition splitlines :: "string \<Rightarrow> string list" where
  "splitlines s = lines_from [] s"

text \<open>
  \<open>s.split()\<close>: the maximal runs of characters that are not whitespace, in order.
\<close>

fun words_from :: "string \<Rightarrow> string \<Rightarrow> string list" where
  "words_from acc [] = (if acc = [] then [] else [rev acc])"
| "words_from acc (c # cs) =
     (if is_space c then (if acc = [] then words_from [] cs else rev acc # words_from [] cs)
      else words_from (c # acc) cs)"

definition str_split :: "string \<Rightarrow> string list" where
  "str_split s = words_from [] s"

text \<open>\<open>s.rfind(c)\<close>: the last index of \<open>c\<close> in \<open>s\<close>, or \<open>-1\<close>.\<close>

fun rfind :: "string \<Rightarrow> char \<Rightarrow> int" where
  "rfind [] c = - 1"
| "rfind (x # xs) c =
     (let r = rfind xs c in if 0 \<le> r then r + 1 else if x = c then 0 else - 1)"

text \<open>\<open>s.rstrip(c)\<close> for a single character \<open>c\<close>.\<close>

definition rstrip :: "string \<Rightarrow> char \<Rightarrow> string" where
  "rstrip s c = rev (dropWhile (\<lambda>x. x = c) (rev s))"

subsection \<open>posixpath\<close>

definition dirname :: "string \<Rightarrow> string" where
  "dirname p =
     (let i = nat (rfind p CHR ''/'' + 1);
          head = take i p
      in if head \<noteq> [] \<and> head \<noteq> replicate (length head) CHR ''/''
         then rstrip head CHR ''/'' else head)"

definition basename :: "string \<Rightarrow> string" where
  "basename p = (let i = nat (rfind p CHR ''/'' + 1) in drop i p)"

text \<open>\<open>os.path.join(a, b)\<close>\<close>

definition join :: "string \<Rightarrow> string \<Rightarrow> string" where
  "join a b =
     (if startswith b ''/'' then b
      else if a = [] \<or> endswith a ''/'' then a @ b
      else a @ ''/'' @ b)"

section \<open>The control-file parser\<close>

text \<open>
  The fields of the named tuple are untyped in Python; the model keeps the type of the
  value each field holds.
\<close>

datatype pyval = PyStr string | PyInt int

record SourceFile =
  sha256 :: pyval
  size :: pyval
  name :: pyval
  path :: pyval

datatype error =
    FileNotFoundError string
  | IndexError
  | TypeError
  | AttributeError
  | SystemExit int

text \<open>\<open>data[2]\<close> raises IndexError on a list of fewer than three items.\<close>

definition item2 :: "'a list \<Rightarrow> error + 'a" where
  "item2 data = (if 2 < length data then Inr (data ! 2) else Inl IndexError)"

text \<open>
  \<open>SourceFile(*data)\<close>: the constructor of the named tuple takes exactly four
  positional arguments and raises TypeError on any other number.
\<close>

fun new_SourceFile :: "pyval list \<Rightarrow> error + SourceFile" where
  "new_SourceFile [a, b, c, d] = Inr \<lparr>sha256 = a, size = b, name = c, path = d\<rparr>"
| "new_SourceFile data = Inl TypeError"

text \<open>The body of the loop's first branch: one data row becomes one entry.\<close>

definition data_row :: "string \<Rightarrow> string \<Rightarrow> error + SourceFile" where
  "data_row there line =
     (let data = str_split line in
      case item2 data of
        Inl e \<Rightarrow> Inl e
      | Inr d2 \<Rightarrow> new_SourceFile (map PyStr (data @ [join there d2])))"

definition header :: string where
  "header = ''Checksums-Sha256:''"

text \<open>
  The loop over the lines, with the loop's variables \<open>found\<close> and \<open>files\<close> as
  arguments. \<open>break\<close> returns the files collected so far. The second \<open>if\<close> of the
  loop body, which looks for the header, can change \<open>found\<close> only while it is false,
  that is when neither branch of the first \<open>if\<close> was taken.
\<close>

fun scan :: "string \<Rightarrow> bool \<Rightarrow> SourceFile list \<Rightarrow> string list \<Rightarrow> error + SourceFile list" where
  "scan there found files [] = Inr files"
| "scan there found files (line # rest) =
     (if found \<and> startswith line '' '' then
        (case data_row there line of
           Inl e \<Rightarrow> Inl e
         | Inr sf \<Rightarrow> scan there found (files @ [sf]) rest)
      else if found then Inr files
      else if startswith line header then scan there True files rest
      else scan there found files rest)"

text \<open>
  The file system maps a path to the text that \<open>open(path).read()\<close> returns (in
  text mode, so decoded and with the line ends of the platform already read as
  \<open>\n\<close>); a path that it does not map has no file, and \<open>open\<close> raises
  FileNotFoundError. Other failures of \<open>open\<close> and \<open>read\<close> (permissions, a
  directory, bytes that do not decode) are outside the model.
\<close>

type_synonym filesystem = "string \<Rightarrow> string option"

definition parse_dsc :: "filesystem \<Rightarrow> string \<Rightarrow> bool \<Rightarrow> error + SourceFile list" where
  "parse_dsc fs dsc_path verbose =
     (case fs dsc_path of
        None \<Rightarrow> Inl (FileNotFoundError dsc_path)
      | Some content \<Rightarrow> scan (dirname dsc_path) False [] (splitlines content))"

subsection \<open>Reference reading of a section\<close>

text \<open>
  The rows of a section converted one after the other, in order; the first row that
  fails gives the error and no entries.
\<close>

fun convert_rows :: "string \<Rightarrow> string list \<Rightarrow> error + SourceFile list" where
  "convert_rows there [] = Inr []"
| "convert_rows there (r # rs) =
     (case data_row there r of
        Inl e \<Rightarrow> Inl e
      | Inr sf \<Rightarrow> (case convert_rows there rs of Inl e \<Rightarrow> Inl e | Inr sfs \<Rightarrow> Inr (sf # sfs)))"

text \<open>The entry that the spec describes for a row of three tokens.\<close>

definition entry_of :: "string \<Rightarrow> string \<Rightarrow> SourceFile" where
  "entry_of there r =
     \<lparr>sha256 = PyStr (str_split r ! 0), size = PyStr (str_split r ! 1),
      name = PyStr (str_split r ! 2), path = PyStr (join there (str_split r ! 2))\<rparr>"

subsection \<open>Example files\<close>

text \<open>A text file with the given lines, each ended by a newline.\<close>

definition text_of :: "string list \<Rightarrow> string" where
  "text_of ls = concat (map (\<lambda>l. l @ [CHR 0x0A]) ls)"

definition foo_dsc :: string where
  "foo_dsc = text_of
     [''Checksums-Sha256:'',
      '' abcdef0123456789 100 foo.tar.gz'',
      '' fedcba9876543210 200 foo.dsc'',
      ''Other-Field: x'']"

definition no_section_dsc :: string where
  "no_section_dsc = text_of [''Format: 1.0'', ''Source: foo'', '' abc 1 foo.tar.gz'']"

definition missing_name_dsc :: string where
  "missing_name_dsc = text_of
     [''Source: foo'',
      ''Checksums-Sha256:'',
      '' abcdef0123456789 100 foo.tar.gz'',
      '' abc123 1024'',
      ''Other-Field: x'']"

text \<open>A row indented with a tab.\<close>

definition tab_row :: string where
  "tab_row = CHR 0x09 # ''abcdef0123456789 100 foo.tar.gz''"

definition tab_dsc :: string where
  "tab_dsc = text_of [''Checksums-Sha256:'', tab_row, ''Other-Field: x'']"

definition subdir_dsc :: string where
  "subdir_dsc = text_of [''Checksums-Sha256:'', '' abcdef0123456789 100 sub/foo.tar.gz'']"

definition two_sections_dsc :: string where
  "two_sections_dsc = text_of
     [''Checksums-Sha256:'',
      '' abcdef0123456789 100 foo.tar.gz'',
      ''Files:'',
      ''Checksums-Sha256:'',
      '' fedcba9876543210 200 bar.tar.gz'']"

definition example_fs :: filesystem where
  "example_fs =
     [''/tmp/pkg/foo.dsc'' \<mapsto> foo_dsc,
      ''/tmp/pkg/plain.dsc'' \<mapsto> no_section_dsc,
      ''/tmp/pkg/short.dsc'' \<mapsto> missing_name_dsc,
      ''/tmp/pkg/tab.dsc'' \<mapsto> tab_dsc,
      ''/tmp/pkg/subdir.dsc'' \<mapsto> subdir_dsc,
      ''/tmp/pkg/two.dsc'' \<mapsto> two_sections_dsc]"

section \<open>The command dispatcher\<close>

definition build_binary :: "filesystem \<Rightarrow> string \<Rightarrow> string \<Rightarrow> bool \<Rightarrow> error + int" where
  "build_binary fs dsc_path location verbose =
     (case parse_dsc fs dsc_path verbose of
        Inl e \<Rightarrow> Inl e
      | Inr source_files \<Rightarrow> Inr 0)"

text \<open>
  The \<open>Namespace\<close> that \<open>parse_args\<close> returns. \<open>command\<close> is \<open>None\<close> when no
  sub-command was given (Python 3 does not require one unless \<open>add_subparsers\<close> is
  told so). The attributes \<open>dsc\<close> and \<open>location\<close> exist only when the sub-parser of
  \<open>binary\<close> ran; \<open>None\<close> stands for an attribute that is absent.
\<close>

record namespace =
  command :: "string option"
  verbose :: bool
  dsc :: "string option"
  location :: "string option"

subsection \<open>The parser that get\_args builds\<close>

text \<open>
  \<open>ArgumentParser\<close> is library code; what follows is how argparse (as of Python 3.11
  and 3.12) reads an argument vector with the parser that \<open>get_args\<close> configures: the
  options \<open>-v\<close>/\<open>--verbose\<close> and \<open>-h\<close>/\<open>--help\<close>, and the sub-command
  \<open>binary\<close> with its positionals \<open>dsc\<close> and \<open>location\<close>. The reading of the
  top-level parser is written out for every argument vector. The reading of the
  sub-parser is written out for the vectors made of plain arguments (the four option
  strings in full and words that do not begin with \<open>-\<close>); on every other vector that
  reaches the sub-parser the result is left to the parameter \<open>lib\<close>.
  An error of the parser and \<open>--help\<close> end in \<open>sys.exit\<close>: status 2 after the usage
  message, status 0 after the help text.
\<close>

definition is_verbose :: "string \<Rightarrow> bool" where
  "is_verbose a \<longleftrightarrow> a = ''-v'' \<or> a = ''--verbose''"

definition is_help :: "string \<Rightarrow> bool" where
  "is_help a \<longleftrightarrow> a = ''-h'' \<or> a = ''--help''"

definition is_word :: "string \<Rightarrow> bool" where
  "is_word a \<longleftrightarrow> \<not> startswith a ''-''"

definition plain :: "string \<Rightarrow> bool" where
  "plain a \<longleftrightarrow> is_verbose a \<or> is_help a \<or> is_word a"

text \<open>
  The sub-parser of \<open>binary\<close>, with the positionals \<open>dsc\<close> and \<open>location\<close> and
  the option \<open>-h\<close>. The arguments are read in order: help exits at once, the first two
  words fill the positionals, and anything else (a third word, \<open>-v\<close>, which this
  sub-parser does not know) is kept as unrecognized. At the end a missing positional is an
  error, and so is an unrecognized argument.
\<close>

fun binary_parser ::
  "string option \<Rightarrow> string option \<Rightarrow> bool \<Rightarrow> string list \<Rightarrow> error + string \<times> string" where
  "binary_parser d l extras [] =
     (case d of
        None \<Rightarrow> Inl (SystemExit 2)
      | Some dv \<Rightarrow>
          (case l of
             None \<Rightarrow> Inl (SystemExit 2)
           | Some lv \<Rightarrow> if extras then Inl (SystemExit 2) else Inr (dv, lv)))"
| "binary_parser d l extras (a # as) =
     (if is_help a then Inl (SystemExit 0)
      else if is_word a \<and> d = None then binary_parser (Some a) l extras as
      else if is_word a \<and> l = None then binary_parser d (Some a) extras as
      else binary_parser d l True as)"

text \<open>
  How the top-level parser reads one argument string (\<open>_parse_optional\<close>, and
  \<open>_get_option_tuples\<close> for abbreviations and clusters):
  \<^item> \<open>Positional\<close>: the empty string, a string that does not begin with \<open>-\<close>, the
    string \<open>-\<close>, and a string that matches no option and looks like a negative number
    or contains a space;
  \<^item> \<open>Acts\<close>: an option string in full, or a string beginning with \<open>--\<close> that is
    the beginning of exactly one long option;
  \<^item> \<open>Refused\<close>: such a long option with \<open>=value\<close> attached, which neither option
    takes (the error is raised when the parser comes to the argument);
  \<^item> \<open>Ambiguous\<close>: a string that is the beginning of both long options
    (\<open>--=value\<close>);
  \<^item> \<open>Clustered\<close>: \<open>-h\<close> or \<open>-v\<close> with more characters attached;
  \<^item> \<open>Unrecognized\<close>: any other string that begins with \<open>-\<close>.
\<close>

datatype action = PrintHelp | StoreVerbose

datatype reading =
    Positional
  | Acts action
  | Refused
  | Ambiguous
  | Clustered string
  | Unrecognized

definition long_options :: "(string \<times> action) list" where
  "long_options = [(''--help'', PrintHelp), (''--verbose'', StoreVerbose)]"

definition short_option :: "char \<Rightarrow> action option" where
  "short_option c =
     (if c = CHR ''h'' then Some PrintHelp
      else if c = CHR ''v'' then Some StoreVerbose
      else None)"

text \<open>The part of an argument before its first \<open>=\<close>.\<close>

definition before_eq :: "string \<Rightarrow> string" where
  "before_eq a = takeWhile (\<lambda>c. c \<noteq> CHR ''='') a"

definition is_digit :: "char \<Rightarrow> bool" where
  "is_digit c \<longleftrightarrow> c \<in> set ''0123456789''"

text \<open>
  The regular expression \<open>^-\d+$|^-\d*\.\d+$\<close> of argparse, on the characters after
  the \<open>-\<close>; \<open>$\<close> also matches before a newline that ends the string.
\<close>

definition unsigned_number :: "string \<Rightarrow> bool" where
  "unsigned_number r =
     (let ds = takeWhile is_digit r; fs = dropWhile is_digit r
      in (fs = [] \<and> ds \<noteq> [])
         \<or> (case fs of [] \<Rightarrow> False
             | c # gs \<Rightarrow> c = CHR ''.'' \<and> gs \<noteq> [] \<and> list_all is_digit gs))"

definition negative_number :: "string \<Rightarrow> bool" where
  "negative_number a =
     (case a of
        [] \<Rightarrow> False
      | c # r \<Rightarrow>
          c = CHR ''-''
          \<and> (unsigned_number r
             \<or> (r \<noteq> [] \<and> last r = CHR 0x0A \<and> unsigned_number (butlast r))))"

definition no_option :: "string \<Rightarrow> reading" where
  "no_option a =
     (if negative_number a \<or> CHR '' '' \<in> set a then Positional else Unrecognized)"

definition parse_optional :: "string \<Rightarrow> reading" where
  "parse_optional a =
     (if a = [] \<or> hd a \<noteq> CHR ''-'' then Positional
      else if is_help a then Acts PrintHelp
      else if is_verbose a then Acts StoreVerbose
      else if length a = 1 then Positional
      else if a ! 1 = CHR ''-'' then
        (case filter (\<lambda>(s, act). startswith s (before_eq a)) long_options of
           [] \<Rightarrow> no_option a
         | [(s, act)] \<Rightarrow> if CHR ''='' \<in> set a then Refused else Acts act
         | _ \<Rightarrow> Ambiguous)
      else
        (case short_option (a ! 1) of
           Some act \<Rightarrow> Clustered (tl a)
         | None \<Rightarrow> no_option a))"

text \<open>
  A cluster, given as the characters after the \<open>-\<close>: the letters \<open>h\<close> and
  \<open>v\<close> at its front are options of their own. When the characters end there, or go on
  with a character that is no option, the options at the front are acted on, and what
  follows them is kept as unrecognized (the second component); when they go on with
  \<open>=\<close> or \<open>-\<close>, the parser reports an error and acts on none (\<open>None\<close>).
\<close>

fun cluster :: "string \<Rightarrow> (action list \<times> bool) option" where
  "cluster [] = Some ([], False)"
| "cluster (c # cs) =
     (case short_option c of
        Some act \<Rightarrow>
          (case cluster cs of
             None \<Rightarrow> None
           | Some (acts, extras) \<Rightarrow> Some (act # acts, extras))
      | None \<Rightarrow> if c = CHR ''='' \<or> c = CHR ''-'' then None else Some ([], True))"

text \<open>
  The top-level parser reads the arguments in order, with \<open>v\<close> the verbose flag so far
  and \<open>x\<close> telling whether an unrecognized argument has been met. Help exits at once.
  The first positional argument is the sub-command and takes all the arguments after it; a
  positional that is not \<open>binary\<close> is an error (invalid choice), and so is \<open>--\<close>,
  which the parser hands on as the sub-command or keeps as unrecognized. At the end the
  sub-command is not required, and an unrecognized argument is an error.
\<close>

fun top_parser ::
  "(string list \<Rightarrow> error + namespace) \<Rightarrow> string list \<Rightarrow> bool \<Rightarrow> bool \<Rightarrow> string list
   \<Rightarrow> error + namespace" where
  "top_parser lib args v x [] =
     (if x then Inl (SystemExit 2)
      else Inr \<lparr>command = None, verbose = v, dsc = None, location = None\<rparr>)"
| "top_parser lib args v x (a # as) =
     (if a = ''--'' then Inl (SystemExit 2)
      else
        (case parse_optional a of
           Positional \<Rightarrow>
             if a = ''binary'' then
               (if list_all plain as then
                  (case binary_parser None None x as of
                     Inl e \<Rightarrow> Inl e
                   | Inr (dv, lv) \<Rightarrow>
                       Inr \<lparr>command = Some a, verbose = v, dsc = Some dv, location = Some lv\<rparr>)
                else lib args)
             else Inl (SystemExit 2)
         | Acts PrintHelp \<Rightarrow> Inl (SystemExit 0)
         | Acts StoreVerbose \<Rightarrow> top_parser lib args True x as
         | Refused \<Rightarrow> Inl (SystemExit 2)
         | Ambiguous \<Rightarrow> Inl (SystemExit 2)
         | Clustered cs \<Rightarrow>
             (case cluster cs of
                None \<Rightarrow> Inl (SystemExit 2)
              | Some (acts, extras) \<Rightarrow>
                  if PrintHelp \<in> set acts then Inl (SystemExit 0)
                  else top_parser lib args True (x \<or> extras) as)
         | Unrecognized \<Rightarrow> top_parser lib args v True as))"

text \<open>
  \<open>parse_args\<close>: before it acts on any argument the parser classifies all of them, up
  to the first \<open>--\<close>, and an ambiguous one is an error there.
\<close>

definition parse_args ::
  "(string list \<Rightarrow> error + namespace) \<Rightarrow> string list \<Rightarrow> error + namespace" where
  "parse_args lib args =
     (if list_ex (\<lambda>a. parse_optional a = Ambiguous) (takeWhile (\<lambda>a. a \<noteq> ''--'') args)
      then Inl (SystemExit 2)
      else top_parser lib args False False args)"

text \<open>\<open>get_args\<close> parses \<open>argv[1:]\<close>.\<close>

definition get_args ::
  "(string list \<Rightarrow> error + namespace) \<Rightarrow> string list \<Rightarrow> error + namespace" where
  "get_args lib argv = parse_args lib (drop 1 argv)"

subsection \<open>main\<close>

text \<open>
  Reading an attribute that the namespace does not have raises AttributeError.
\<close>

definition main ::
  "(string list \<Rightarrow> error + namespace) \<Rightarrow> filesystem \<Rightarrow> string list \<Rightarrow> error + int" where
  "main lib fs argv =
     (case get_args lib argv of
        Inl e \<Rightarrow> Inl e
      | Inr args \<Rightarrow>
          if command args = Some ''binary'' then
            (case dsc args of
               None \<Rightarrow> Inl AttributeError
             | Some dv \<Rightarrow>
                 (case location args of
                    None \<Rightarrow> Inl AttributeError
                  | Some lv \<Rightarrow> build_binary fs dv lv (verbose args)))
          else Inr 0)"

text \<open>
  \<open>sys.exit(main(sys.argv))\<close>: the exit status of the process is the value that
  \<open>main\<close> returns, the code of a \<open>SystemExit\<close>, or 1 after any other exception, which
  reaches the top level unhandled and is printed with its traceback.
\<close>

definition exit_status :: "error + int \<Rightarrow> int" where
  "exit_status r =
     (case r of
        Inr code \<Rightarrow> code
      | Inl (SystemExit code) \<Rightarrow> code
      | Inl e \<Rightarrow> 1)"

definition script ::
  "(string list \<Rightarrow> error + namespace) \<Rightarrow> filesystem \<Rightarrow> string list \<Rightarrow> int" where
  "script lib fs argv = exit_status (main lib fs argv)"

subsection \<open>Argument vectors without a sub-command\<close>




text \<open>
  A value for the parameter \<open>lib\<close> in the examples; their argument vectors never reach it.
\<close>

definition lib_unused :: "string list \<Rightarrow> error + namespace" where
  "lib_unused args = Inl (SystemExit 2)"


section \<open>Properties of the parser\<close>

subsection \<open>The loop\<close>

lemma scan_no_header:
  "\<forall>l \<in> set ls. \<not> startswith l header \<Longrightarrow> scan there False files ls = Inr files"
  by (induction ls) auto

lemma scan_before_header:
  "\<forall>l \<in> set pre. \<not> startswith l header \<Longrightarrow>
   scan there False files (pre @ ls) = scan there False files ls"
  by (induction pre) auto

lemma scan_section:
  assumes "\<forall>r \<in> set rows. startswith r '' ''"
    and "rest = [] \<or> \<not> startswith (hd rest) '' ''"
  shows "scan there True files (rows @ rest) =
         (case convert_rows there rows of Inl e \<Rightarrow> Inl e | Inr sfs \<Rightarrow> Inr (files @ sfs))"
  using assms
proof (induction rows arbitrary: files)
  case Nil
  then show ?case by (cases rest) auto
next
  case (Cons r rows)
  then show ?case by (simp split: sum.splits)
qed

subsection \<open>One row\<close>

lemma data_row_three:
  "length (str_split r) = 3 \<Longrightarrow> data_row there r = Inr (entry_of there r)"
proof -
  assume "length (str_split r) = 3"
  then obtain a b c where "str_split r = [a, b, c]"
    by (auto simp: length_Suc_conv numeral_3_eq_3)
  then show ?thesis
    by (simp add: data_row_def item2_def entry_of_def)
qed

lemma data_row_short:
  "length (str_split r) < 3 \<Longrightarrow> data_row there r = Inl IndexError"
  by (simp add: data_row_def item2_def)

lemma new_SourceFile_arity:
  "length data \<noteq> 4 \<Longrightarrow> new_SourceFile data = Inl TypeError"
  by (cases data rule: new_SourceFile.cases) simp_all

lemma data_row_long:
  "3 < length (str_split r) \<Longrightarrow> data_row there r = Inl TypeError"
  by (simp add: data_row_def item2_def new_SourceFile_arity)

lemma data_row_Inr:
  assumes "data_row there r = Inr sf"
  shows "length (str_split r) = 3 \<and> sf = entry_of there r"
proof -
  have "length (str_split r) = 3"
  proof (rule ccontr)
    assume "length (str_split r) \<noteq> 3"
    then consider "length (str_split r) < 3" | "3 < length (str_split r)" by linarith
    then show False using assms by cases (simp_all add: data_row_short data_row_long)
  qed
  then show ?thesis using assms by (simp add: data_row_three)
qed

lemma convert_rows_three:
  "\<forall>r \<in> set rows. length (str_split r) = 3 \<Longrightarrow>
   convert_rows there rows = Inr (map (entry_of there) rows)"
  by (induction rows) (simp_all add: data_row_three)

subsection \<open>Whole files\<close>

lemma scan_section_error:
  "\<forall>r \<in> set rows. startswith r '' '' \<Longrightarrow> convert_rows there rows = Inl e \<Longrightarrow>
   scan there True files (rows @ rest) = Inl e"
  by (induction rows arbitrary: files) (auto split: sum.splits)

lemma data_row_Inl:
  assumes "data_row there r = Inl e"
  shows "e = IndexError \<or> e = TypeError"
proof -
  consider "length (str_split r) < 3" | "length (str_split r) = 3" | "3 < length (str_split r)"
    by linarith
  then show ?thesis
    using assms by cases (simp_all add: data_row_short data_row_three data_row_long)
qed

lemma convert_rows_malformed:
  "\<exists>r \<in> set rows. length (str_split r) \<noteq> 3 \<Longrightarrow>
   convert_rows there rows = Inl IndexError \<or> convert_rows there rows = Inl TypeError"
proof (induction rows)
  case Nil
  then show ?case by simp
next
  case (Cons r rows)
  show ?case
  proof (cases "data_row there r")
    case (Inl e)
    then show ?thesis using data_row_Inl [OF Inl] by auto
  next
    case (Inr sf)
    then have "length (str_split r) = 3" by (simp add: data_row_Inr)
    with Cons.prems have "\<exists>r \<in> set rows. length (str_split r) \<noteq> 3" by auto
    then have "convert_rows there rows = Inl IndexError \<or> convert_rows there rows = Inl TypeError"
      by (rule Cons.IH)
    then show ?thesis using Inr by auto
  qed
qed

lemma scan_entries:
  "scan there found files ls = Inr out \<Longrightarrow> e \<in> set out \<Longrightarrow>
   e \<in> set files \<or> (\<exists>l \<in> set ls. length (str_split l) = 3 \<and> e = entry_of there l)"
proof (induction ls arbitrary: files found)
  case Nil
  then show ?case by simp
next
  case (Cons l ls)
  show ?case
  proof (cases "found \<and> startswith l '' ''")
    case True
    then obtain sf where sf: "data_row there l = Inr sf"
      and rest: "scan there found (files @ [sf]) ls = Inr out"
      using Cons.prems(1) by (auto split: sum.splits)
    from Cons.IH [OF rest Cons.prems(2)] data_row_Inr [OF sf]
    show ?thesis by auto
  next
    case False
    show ?thesis
    proof (cases found)
      case True
      with False Cons.prems show ?thesis by auto
    next
      case nf: False
      then obtain f' where "scan there f' files ls = Inr out"
        using Cons.prems(1) by (auto split: if_splits)
      from Cons.IH [OF this Cons.prems(2)] show ?thesis by auto
    qed
  qed
qed

lemma scan_file:
  assumes "\<forall>l \<in> set pre. \<not> startswith l header"
    and "startswith hdr header"
    and "\<forall>r \<in> set rows. startswith r '' ''"
    and "rest = [] \<or> \<not> startswith (hd rest) '' ''"
  shows "scan there False [] (pre @ hdr # rows @ rest) = convert_rows there rows"
proof -
  have "scan there False [] (pre @ hdr # rows @ rest) = scan there True [] (rows @ rest)"
    using assms(1,2) by (simp add: scan_before_header)
  also have "\<dots> = (case convert_rows there rows of Inl e \<Rightarrow> Inl e | Inr sfs \<Rightarrow> Inr ([] @ sfs))"
    using assms(3,4) by (rule scan_section)
  also have "\<dots> = convert_rows there rows"
    by (simp split: sum.splits)
  finally show ?thesis .
qed

lemma parse_dsc_entries:
  assumes "parse_dsc fs dsc_path verb = Inr files" and "e \<in> set files"
  shows "\<exists>content. fs dsc_path = Some content
         \<and> (\<exists>l \<in> set (splitlines content).
               length (str_split l) = 3 \<and> e = entry_of (dirname dsc_path) l)"
proof (cases "fs dsc_path")
  case None
  then show ?thesis using assms(1) by (simp add: parse_dsc_def)
next
  case (Some content)
  then have "scan (dirname dsc_path) False [] (splitlines content) = Inr files"
    using assms(1) by (simp add: parse_dsc_def)
  from scan_entries [OF this assms(2)] Some show ?thesis by simp
qed

lemma scan_rows_found:
  "scan there True files ls = Inr out \<Longrightarrow>
   \<exists>rows rest. ls = rows @ rest \<and> out = files @ map (entry_of there) rows
     \<and> (\<forall>r \<in> set rows. startswith r '' '' \<and> length (str_split r) = 3)
     \<and> (rest = [] \<or> \<not> startswith (hd rest) '' '')"
proof (induction ls arbitrary: files)
  case Nil
  then show ?case by simp
next
  case (Cons l ls)
  show ?case
  proof (cases "startswith l '' ''")
    case True
    with Cons.prems obtain sf where sf: "data_row there l = Inr sf"
      and rest: "scan there True (files @ [sf]) ls = Inr out"
      by (auto split: sum.splits)
    from Cons.IH [OF rest] obtain rows rest where
      r: "ls = rows @ rest" "out = (files @ [sf]) @ map (entry_of there) rows"
        "\<forall>r \<in> set rows. startswith r '' '' \<and> length (str_split r) = 3"
        "rest = [] \<or> \<not> startswith (hd rest) '' ''"
      by blast
    from data_row_Inr [OF sf] have "length (str_split l) = 3" and "sf = entry_of there l"
      by simp_all
    with r True have "l # ls = (l # rows) @ rest
      \<and> out = files @ map (entry_of there) (l # rows)
      \<and> (\<forall>r \<in> set (l # rows). startswith r '' '' \<and> length (str_split r) = 3)
      \<and> (rest = [] \<or> \<not> startswith (hd rest) '' '')"
      by simp
    then show ?thesis by blast
  next
    case False
    with Cons.prems have "out = files" by simp
    with False have "l # ls = [] @ (l # ls) \<and> out = files @ map (entry_of there) []
      \<and> (\<forall>r \<in> set []. startswith r '' '' \<and> length (str_split r) = 3)
      \<and> (l # ls = [] \<or> \<not> startswith (hd (l # ls)) '' '')"
      by simp
    then show ?thesis by blast
  qed
qed

lemma scan_rows:
  "scan there False files ls = Inr out \<Longrightarrow>
   \<exists>pre rows rest. ls = pre @ rows @ rest \<and> out = files @ map (entry_of there) rows
     \<and> (\<forall>r \<in> set rows. startswith r '' '' \<and> length (str_split r) = 3)
     \<and> (rest = [] \<or> \<not> startswith (hd rest) '' '')
     \<and> (\<forall>l \<in> set (butlast pre). \<not> startswith l header)
     \<and> (rows \<noteq> [] \<longrightarrow> pre \<noteq> [] \<and> startswith (last pre) header)"
proof (induction ls)
  case Nil
  then show ?case by simp
next
  case (Cons l ls)
  show ?case
  proof (cases "startswith l header")
    case True
    with Cons.prems have "scan there True files ls = Inr out" by simp
    from scan_rows_found [OF this] obtain rows rest where
      "ls = rows @ rest" "out = files @ map (entry_of there) rows"
      "\<forall>r \<in> set rows. startswith r '' '' \<and> length (str_split r) = 3"
      "rest = [] \<or> \<not> startswith (hd rest) '' ''"
      by blast
    with True have "l # ls = [l] @ rows @ rest \<and> out = files @ map (entry_of there) rows
      \<and> (\<forall>r \<in> set rows. startswith r '' '' \<and> length (str_split r) = 3)
      \<and> (rest = [] \<or> \<not> startswith (hd rest) '' '')
      \<and> (\<forall>l \<in> set (butlast [l]). \<not> startswith l header)
      \<and> (rows \<noteq> [] \<longrightarrow> [l] \<noteq> [] \<and> startswith (last [l]) header)"
      by simp
    then show ?thesis by blast
  next
    case False
    with Cons.prems have "scan there False files ls = Inr out" by simp
    from Cons.IH [OF this] obtain pre rows rest where
      r: "ls = pre @ rows @ rest" "out = files @ map (entry_of there) rows"
      "\<forall>r \<in> set rows. startswith r '' '' \<and> length (str_split r) = 3"
      "rest = [] \<or> \<not> startswith (hd rest) '' ''"
      "\<forall>l \<in> set (butlast pre). \<not> startswith l header"
      "rows \<noteq> [] \<longrightarrow> pre \<noteq> [] \<and> startswith (last pre) header"
      by blast
    from r(5) False have "\<forall>k \<in> set (butlast (l # pre)). \<not> startswith k header"
      by auto
    moreover from r(6) have "rows \<noteq> [] \<longrightarrow> l # pre \<noteq> [] \<and> startswith (last (l # pre)) header"
      by auto
    ultimately have "l # ls = (l # pre) @ rows @ rest
      \<and> out = files @ map (entry_of there) rows
      \<and> (\<forall>r \<in> set rows. startswith r '' '' \<and> length (str_split r) = 3)
      \<and> (rest = [] \<or> \<not> startswith (hd rest) '' '')
      \<and> (\<forall>k \<in> set (butlast (l # pre)). \<not> startswith k header)
      \<and> (rows \<noteq> [] \<longrightarrow> l # pre \<noteq> [] \<and> startswith (last (l # pre)) header)"
      using r(1-4) by simp
    then show ?thesis by blast
  qed
qed

subsection \<open>Paths\<close>

lemma rfind_absent: "c \<notin> set s \<Longrightarrow> rfind s c = - 1"
  by (induction s) (auto simp: Let_def)

lemma rfind_last: "c \<notin> set n \<Longrightarrow> rfind (xs @ c # n) c = int (length xs)"
  by (induction xs) (auto simp: Let_def rfind_absent)

lemma basename_plain: "CHR ''/'' \<notin> set n \<Longrightarrow> basename n = n"
  by (simp add: basename_def rfind_absent)

lemma basename_after_slash:
  assumes "CHR ''/'' \<notin> set n"
  shows "basename (xs @ CHR ''/'' # n) = n"
proof -
  have "nat (rfind (xs @ CHR ''/'' # n) CHR ''/'' + 1) = Suc (length xs)"
    using assms by (simp add: rfind_last)
  then show ?thesis by (simp add: basename_def)
qed

lemma endswith_slash: "endswith a ''/'' \<Longrightarrow> \<exists>t. a = t @ ''/''"
proof -
  assume "endswith a ''/''"
  then have "startswith (rev a) ''/''" by (simp add: endswith_def)
  then obtain t where "rev a = CHR ''/'' # t" by (cases "rev a") auto
  then have "a = rev t @ ''/''" by (metis rev_rev_ident rev.simps(2) append_Cons append_Nil)
  then show ?thesis by blast
qed

lemma basename_join:
  assumes "CHR ''/'' \<notin> set n"
  shows "basename (join a n) = n"
proof -
  have ns: "\<not> startswith n ''/''" using assms by (cases n) auto
  show ?thesis
  proof (cases "a = []")
    case True
    then show ?thesis using ns assms by (simp add: join_def basename_plain)
  next
    case False
    show ?thesis
    proof (cases "endswith a ''/''")
      case True
      then obtain t where "a = t @ ''/''" using endswith_slash by blast
      then show ?thesis using ns True assms basename_after_slash [of n t]
        by (simp add: join_def)
    next
      case e: False
      then show ?thesis using ns False assms basename_after_slash [of n a]
        by (simp add: join_def)
    qed
  qed
qed

subsection \<open>The example files\<close>

lemma splitlines_no_section_dsc:
  "splitlines no_section_dsc = [''Format: 1.0'', ''Source: foo'', '' abc 1 foo.tar.gz'']"
  by (simp add: splitlines_def no_section_dsc_def text_of_def is_linebreak_def)

lemma splitlines_foo_dsc:
  "splitlines foo_dsc =
     [] @ ''Checksums-Sha256:'' #
     ['' abcdef0123456789 100 foo.tar.gz'', '' fedcba9876543210 200 foo.dsc''] @
     [''Other-Field: x'']"
  by (simp add: splitlines_def foo_dsc_def text_of_def is_linebreak_def)

lemma splitlines_missing_name_dsc:
  "splitlines missing_name_dsc =
     [''Source: foo''] @ ''Checksums-Sha256:'' #
     ['' abcdef0123456789 100 foo.tar.gz'', '' abc123 1024''] @
     [''Other-Field: x'']"
  by (simp add: splitlines_def missing_name_dsc_def text_of_def is_linebreak_def)

lemma splitlines_two_sections_dsc:
  "splitlines two_sections_dsc =
     [] @ ''Checksums-Sha256:'' # ['' abcdef0123456789 100 foo.tar.gz''] @
     ''Files:'' # [] @ ''Checksums-Sha256:'' # ['' fedcba9876543210 200 bar.tar.gz''] @ []"
  by (simp add: splitlines_def two_sections_dsc_def text_of_def is_linebreak_def)

lemma str_split_rows:
  "str_split '' abcdef0123456789 100 foo.tar.gz'' = [''abcdef0123456789'', ''100'', ''foo.tar.gz'']"
  "str_split '' fedcba9876543210 200 foo.dsc'' = [''fedcba9876543210'', ''200'', ''foo.dsc'']"
  "str_split '' abc123 1024'' = [''abc123'', ''1024'']"
  "str_split '' fedcba9876543210 200 bar.tar.gz'' = [''fedcba9876543210'', ''200'', ''bar.tar.gz'']"
  "str_split '' abcdef0123456789 100 sub/foo.tar.gz'' = [''abcdef0123456789'', ''100'', ''sub/foo.tar.gz'']"
  "str_split tab_row = [''abcdef0123456789'', ''100'', ''foo.tar.gz'']"
  by (simp_all add: str_split_def is_space_def tab_row_def)

lemma dirname_tmp_pkg:
  "dirname ''/tmp/pkg/foo.dsc'' = ''/tmp/pkg''"
  "dirname ''/tmp/pkg/short.dsc'' = ''/tmp/pkg''"
  "dirname ''/tmp/pkg/tab.dsc'' = ''/tmp/pkg''"
  "dirname ''/tmp/pkg/subdir.dsc'' = ''/tmp/pkg''"
  "dirname ''/tmp/pkg/two.dsc'' = ''/tmp/pkg''"
  by (simp_all add: dirname_def rstrip_def Let_def)

lemma parse_foo_dsc:
  "parse_dsc example_fs ''/tmp/pkg/foo.dsc'' False =
     Inr [\<lparr>sha256 = PyStr ''abcdef0123456789'', size = PyStr ''100'',
            name = PyStr ''foo.tar.gz'', path = PyStr ''/tmp/pkg/foo.tar.gz''\<rparr>,
          \<lparr>sha256 = PyStr ''fedcba9876543210'', size = PyStr ''200'',
            name = PyStr ''foo.dsc'', path = PyStr ''/tmp/pkg/foo.dsc''\<rparr>]"
  by (simp add: parse_dsc_def example_fs_def splitlines_foo_dsc header_def data_row_def
      str_split_rows item2_def dirname_tmp_pkg join_def endswith_def)

lemma parse_tab_dsc:
  "parse_dsc example_fs ''/tmp/pkg/tab.dsc'' False = Inr []"
  by (simp add: parse_dsc_def example_fs_def splitlines_def tab_dsc_def tab_row_def text_of_def
      is_linebreak_def header_def)

lemma parse_subdir_dsc:
  "parse_dsc example_fs ''/tmp/pkg/subdir.dsc'' False =
     Inr [\<lparr>sha256 = PyStr ''abcdef0123456789'', size = PyStr ''100'',
            name = PyStr ''sub/foo.tar.gz'', path = PyStr ''/tmp/pkg/sub/foo.tar.gz''\<rparr>]"
  by (simp add: parse_dsc_def example_fs_def splitlines_def subdir_dsc_def text_of_def
      is_linebreak_def header_def data_row_def
      str_split_rows item2_def dirname_tmp_pkg join_def endswith_def)

subsection \<open>Claims\<close>

text \<open>
  C3: a control file that exists and has no line starting with the section header
  \<open>Checksums-Sha256:\<close> parses to the empty list; no error is raised.
\<close>

theorem parse_dsc_no_section:
  assumes "fs dsc_path = Some content"
    and "\<forall>l \<in> set (splitlines content). \<not> startswith l header"
  shows "parse_dsc fs dsc_path verb = Inr []"
  using assms by (simp add: parse_dsc_def scan_no_header)

theorem parse_dsc_no_section_witness:
  "example_fs ''/tmp/pkg/plain.dsc'' = Some no_section_dsc
   \<and> parse_dsc example_fs ''/tmp/pkg/plain.dsc'' False = Inr []"
proof -
  have a: "example_fs ''/tmp/pkg/plain.dsc'' = Some no_section_dsc"
    by (simp add: example_fs_def)
  have b: "\<forall>l \<in> set (splitlines no_section_dsc). \<not> startswith l header"
    by (simp add: splitlines_no_section_dsc header_def)
  show ?thesis
    using a b parse_dsc_no_section [of example_fs "''/tmp/pkg/plain.dsc''" no_section_dsc False]
    by simp
qed

text \<open>
  C1: in a control file whose lines are some lines without the header, a header line, then
  \<open>n\<close> rows that each begin with a space and split into exactly three tokens, then
  either nothing or a line that does not begin with a space, \<open>parse_dsc\<close> returns
  exactly \<open>n\<close> entries, in the order of the rows, and the checksum, size and name
  of the \<open>i\<close>-th entry are the first, second and third token of the \<open>i\<close>-th row.
\<close>

theorem parse_dsc_rows_in_order:
  assumes "fs dsc_path = Some content"
    and "splitlines content = pre @ hdr # rows @ rest"
    and "\<forall>l \<in> set pre. \<not> startswith l header"
    and "startswith hdr header"
    and "\<forall>r \<in> set rows. startswith r '' '' \<and> length (str_split r) = 3"
    and "rest = [] \<or> \<not> startswith (hd rest) '' ''"
  shows "\<exists>files. parse_dsc fs dsc_path verb = Inr files
           \<and> length files = length rows
           \<and> (\<forall>i < length rows.
                 sha256 (files ! i) = PyStr (str_split (rows ! i) ! 0)
               \<and> size (files ! i) = PyStr (str_split (rows ! i) ! 1)
               \<and> name (files ! i) = PyStr (str_split (rows ! i) ! 2))"
proof -
  let ?there = "dirname dsc_path"
  have "parse_dsc fs dsc_path verb = scan ?there False [] (pre @ hdr # rows @ rest)"
    using assms(1,2) by (simp add: parse_dsc_def)
  also have "\<dots> = convert_rows ?there rows"
    using assms(3-6) by (intro scan_file) auto
  also have "\<dots> = Inr (map (entry_of ?there) rows)"
    using assms(5) by (simp add: convert_rows_three)
  finally have "parse_dsc fs dsc_path verb = Inr (map (entry_of ?there) rows)" .
  then show ?thesis by (simp add: entry_of_def)
qed

theorem parse_dsc_rows_in_order_witness:
  "\<exists>files. parse_dsc example_fs ''/tmp/pkg/foo.dsc'' True = Inr files
     \<and> length files = 2
     \<and> sha256 (files ! 0) = PyStr ''abcdef0123456789''
     \<and> size (files ! 0) = PyStr ''100''
     \<and> name (files ! 0) = PyStr ''foo.tar.gz''
     \<and> sha256 (files ! 1) = PyStr ''fedcba9876543210''
     \<and> size (files ! 1) = PyStr ''200''
     \<and> name (files ! 1) = PyStr ''foo.dsc''"
proof -
  let ?rows = "['' abcdef0123456789 100 foo.tar.gz'', '' fedcba9876543210 200 foo.dsc'']"
  have 1: "example_fs ''/tmp/pkg/foo.dsc'' = Some foo_dsc"
    by (simp add: example_fs_def)
  have 3: "\<forall>l \<in> set ([]::string list). \<not> startswith l header" by simp
  have 4: "startswith ''Checksums-Sha256:'' header" by (simp add: header_def)
  have 5: "\<forall>r \<in> set ?rows. startswith r '' '' \<and> length (str_split r) = 3"
    by (simp add: str_split_rows)
  have 6: "[''Other-Field: x''] = [] \<or> \<not> startswith (hd [''Other-Field: x'']) '' ''" by simp
  obtain files where f: "parse_dsc example_fs ''/tmp/pkg/foo.dsc'' True = Inr files"
    and n: "length files = length ?rows"
    and flds: "\<forall>i < length ?rows.
                 sha256 (files ! i) = PyStr (str_split (?rows ! i) ! 0)
               \<and> size (files ! i) = PyStr (str_split (?rows ! i) ! 1)
               \<and> name (files ! i) = PyStr (str_split (?rows ! i) ! 2)"
    using parse_dsc_rows_in_order
      [where fs = example_fs and dsc_path = "''/tmp/pkg/foo.dsc''" and content = foo_dsc
         and pre = "[]" and hdr = "''Checksums-Sha256:''" and rows = ?rows
         and rest = "[''Other-Field: x'']" and verb = True,
       OF 1 splitlines_foo_dsc 3 4 5 6]
    by blast
  from flds have "sha256 (files ! 0) = PyStr (str_split (?rows ! 0) ! 0)
               \<and> size (files ! 0) = PyStr (str_split (?rows ! 0) ! 1)
               \<and> name (files ! 0) = PyStr (str_split (?rows ! 0) ! 2)"
    by simp
  moreover from flds have "sha256 (files ! 1) = PyStr (str_split (?rows ! 1) ! 0)
               \<and> size (files ! 1) = PyStr (str_split (?rows ! 1) ! 1)
               \<and> name (files ! 1) = PyStr (str_split (?rows ! 1) ! 2)"
    by simp
  ultimately show ?thesis using f n by (simp add: str_split_rows)
qed

text \<open>
  C2: when one of the rows of the section (the lines beginning with a space that follow the
  header line) does not split into exactly three tokens, \<open>parse_dsc\<close> raises: IndexError
  for a row of fewer than three tokens, TypeError for a row of more. These two are what
  the spec calls FormatError. The result is the error alone; no list is returned.
\<close>

theorem parse_dsc_malformed_row:
  assumes "fs dsc_path = Some content"
    and "splitlines content = pre @ hdr # rows @ rest"
    and "\<forall>l \<in> set pre. \<not> startswith l header"
    and "startswith hdr header"
    and "\<forall>r \<in> set rows. startswith r '' ''"
    and "\<exists>r \<in> set rows. length (str_split r) \<noteq> 3"
  shows "parse_dsc fs dsc_path verb = Inl IndexError
       \<or> parse_dsc fs dsc_path verb = Inl TypeError"
proof -
  let ?there = "dirname dsc_path"
  have p: "parse_dsc fs dsc_path verb = scan ?there True [] (rows @ rest)"
    using assms(1-4) by (simp add: parse_dsc_def scan_before_header)
  from assms(6) consider "convert_rows ?there rows = Inl IndexError"
    | "convert_rows ?there rows = Inl TypeError"
    using convert_rows_malformed by blast
  then show ?thesis
  proof cases
    case 1
    then show ?thesis using p scan_section_error [OF assms(5) 1] by simp
  next
    case 2
    then show ?thesis using p scan_section_error [OF assms(5) 2] by simp
  qed
qed

theorem parse_dsc_malformed_row_witness:
  "parse_dsc example_fs ''/tmp/pkg/short.dsc'' False = Inl IndexError
   \<or> parse_dsc example_fs ''/tmp/pkg/short.dsc'' False = Inl TypeError"
proof (rule parse_dsc_malformed_row
    [where fs = example_fs and content = missing_name_dsc and pre = "[''Source: foo'']"
       and hdr = "''Checksums-Sha256:''"
       and rows = "['' abcdef0123456789 100 foo.tar.gz'', '' abc123 1024'']"
       and rest = "[''Other-Field: x'']"])
  show "example_fs ''/tmp/pkg/short.dsc'' = Some missing_name_dsc"
    by (simp add: example_fs_def)
  show "splitlines missing_name_dsc =
     [''Source: foo''] @ ''Checksums-Sha256:'' #
     ['' abcdef0123456789 100 foo.tar.gz'', '' abc123 1024''] @
     [''Other-Field: x'']"
    by (rule splitlines_missing_name_dsc)
  show "\<forall>l \<in> set [''Source: foo'']. \<not> startswith l header" by (simp add: header_def)
  show "startswith ''Checksums-Sha256:'' header" by (simp add: header_def)
  show "\<forall>r \<in> set ['' abcdef0123456789 100 foo.tar.gz'', '' abc123 1024'']. startswith r '' ''"
    by simp
  show "\<exists>r \<in> set ['' abcdef0123456789 100 foo.tar.gz'', '' abc123 1024''].
          length (str_split r) \<noteq> 3"
    by (simp add: str_split_rows)
qed

text \<open>
  C4: the path of every entry that \<open>parse_dsc\<close> returns is
  \<open>os.path.join(os.path.dirname(dsc_path), name)\<close> for the entry's own name.
\<close>

theorem parse_dsc_path:
  assumes "parse_dsc fs dsc_path verb = Inr files" and "e \<in> set files"
  shows "\<exists>n. name e = PyStr n \<and> path e = PyStr (join (dirname dsc_path) n)"
  using parse_dsc_entries [OF assms] by (auto simp: entry_of_def)

theorem parse_dsc_path_witness:
  "\<exists>n. name \<lparr>sha256 = PyStr ''fedcba9876543210'', size = PyStr ''200'',
            name = PyStr ''foo.dsc'', path = PyStr ''/tmp/pkg/foo.dsc''\<rparr> = PyStr n
     \<and> path \<lparr>sha256 = PyStr ''fedcba9876543210'', size = PyStr ''200'',
            name = PyStr ''foo.dsc'', path = PyStr ''/tmp/pkg/foo.dsc''\<rparr>
         = PyStr (join (dirname ''/tmp/pkg/foo.dsc'') n)"
proof (rule parse_dsc_path [where fs = example_fs and verb = False])
  show "parse_dsc example_fs ''/tmp/pkg/foo.dsc'' False =
     Inr [\<lparr>sha256 = PyStr ''abcdef0123456789'', size = PyStr ''100'',
            name = PyStr ''foo.tar.gz'', path = PyStr ''/tmp/pkg/foo.tar.gz''\<rparr>,
          \<lparr>sha256 = PyStr ''fedcba9876543210'', size = PyStr ''200'',
            name = PyStr ''foo.dsc'', path = PyStr ''/tmp/pkg/foo.dsc''\<rparr>]"
    by (rule parse_foo_dsc)
  show "\<lparr>sha256 = PyStr ''fedcba9876543210'', size = PyStr ''200'',
            name = PyStr ''foo.dsc'', path = PyStr ''/tmp/pkg/foo.dsc''\<rparr>
        \<in> set [\<lparr>sha256 = PyStr ''abcdef0123456789'', size = PyStr ''100'',
            name = PyStr ''foo.tar.gz'', path = PyStr ''/tmp/pkg/foo.tar.gz''\<rparr>,
          \<lparr>sha256 = PyStr ''fedcba9876543210'', size = PyStr ''200'',
            name = PyStr ''foo.dsc'', path = PyStr ''/tmp/pkg/foo.dsc''\<rparr>]"
    by simp
qed

text \<open>
  C5: the claim that the base name of an entry's path is the entry's name fails for a name
  with a path separator: the row names \<open>sub/foo.tar.gz\<close>, the path is
  \<open>/tmp/pkg/sub/foo.tar.gz\<close> and its base name is \<open>foo.tar.gz\<close>.
  What holds: for every returned entry whose name has no \<open>/\<close>, the base name of the
  path is the name.
\<close>

theorem basename_of_path:
  assumes "parse_dsc fs dsc_path verb = Inr files" and "e \<in> set files"
    and "name e = PyStr n" and "CHR ''/'' \<notin> set n"
  shows "\<exists>p. path e = PyStr p \<and> basename p = n"
proof -
  from parse_dsc_entries [OF assms(1,2)] obtain l where "e = entry_of (dirname dsc_path) l"
    by blast
  with assms(3) have "path e = PyStr (join (dirname dsc_path) n)"
    by (simp add: entry_of_def)
  with assms(4) show ?thesis by (simp add: basename_join)
qed

theorem basename_of_path_witness:
  "\<exists>p. path \<lparr>sha256 = PyStr ''fedcba9876543210'', size = PyStr ''200'',
            name = PyStr ''foo.dsc'', path = PyStr ''/tmp/pkg/foo.dsc''\<rparr> = PyStr p
     \<and> basename p = ''foo.dsc''"
proof (rule basename_of_path [where fs = example_fs and verb = False])
  show "parse_dsc example_fs ''/tmp/pkg/foo.dsc'' False =
     Inr [\<lparr>sha256 = PyStr ''abcdef0123456789'', size = PyStr ''100'',
            name = PyStr ''foo.tar.gz'', path = PyStr ''/tmp/pkg/foo.tar.gz''\<rparr>,
          \<lparr>sha256 = PyStr ''fedcba9876543210'', size = PyStr ''200'',
            name = PyStr ''foo.dsc'', path = PyStr ''/tmp/pkg/foo.dsc''\<rparr>]"
    by (rule parse_foo_dsc)
  show "\<lparr>sha256 = PyStr ''fedcba9876543210'', size = PyStr ''200'',
            name = PyStr ''foo.dsc'', path = PyStr ''/tmp/pkg/foo.dsc''\<rparr>
        \<in> set [\<lparr>sha256 = PyStr ''abcdef0123456789'', size = PyStr ''100'',
            name = PyStr ''foo.tar.gz'', path = PyStr ''/tmp/pkg/foo.tar.gz''\<rparr>,
          \<lparr>sha256 = PyStr ''fedcba9876543210'', size = PyStr ''200'',
            name = PyStr ''foo.dsc'', path = PyStr ''/tmp/pkg/foo.dsc''\<rparr>]"
    by simp
  show "name \<lparr>sha256 = PyStr ''fedcba9876543210'', size = PyStr ''200'',
            name = PyStr ''foo.dsc'', path = PyStr ''/tmp/pkg/foo.dsc''\<rparr> = PyStr ''foo.dsc''"
    by simp
  show "CHR ''/'' \<notin> set ''foo.dsc''" by simp
qed

theorem basename_of_path_counterexample:
  "parse_dsc example_fs ''/tmp/pkg/subdir.dsc'' False =
     Inr [\<lparr>sha256 = PyStr ''abcdef0123456789'', size = PyStr ''100'',
            name = PyStr ''sub/foo.tar.gz'', path = PyStr ''/tmp/pkg/sub/foo.tar.gz''\<rparr>]
   \<and> basename ''/tmp/pkg/sub/foo.tar.gz'' = ''foo.tar.gz''
   \<and> basename ''/tmp/pkg/sub/foo.tar.gz'' \<noteq> ''sub/foo.tar.gz''"
  by (simp add: parse_subdir_dsc basename_def Let_def)

text \<open>
  C6: the claim that the size field is an integer parsed from the second token fails: for
  the row \<open>abcdef0123456789 100 foo.tar.gz\<close> the size is the string \<open>'100'\<close>, not
  the integer 100. \<open>parse_dsc\<close> passes the tokens of \<open>line.split()\<close> to the
  constructor as they are.
  What holds: the entries that \<open>parse_dsc\<close> returns are built, one for one and in
  order, from the rows of the section: the lines right after the first header line that
  begin with a space, up to the first line that does not; each of them splits into exactly
  three tokens. The size of each entry is the second token of its own row, as text, next
  to the checksum and the name from the same row.
\<close>

theorem size_is_raw_token:
  assumes "fs dsc_path = Some content"
    and "parse_dsc fs dsc_path verb = Inr files"
  shows "\<exists>pre rows rest.
           splitlines content = pre @ rows @ rest
         \<and> (rows \<noteq> [] \<longrightarrow> pre \<noteq> [] \<and> startswith (last pre) header)
         \<and> (\<forall>l \<in> set (butlast pre). \<not> startswith l header)
         \<and> (rest = [] \<or> \<not> startswith (hd rest) '' '')
         \<and> length files = length rows
         \<and> (\<forall>i < length rows.
               startswith (rows ! i) '' '' \<and> length (str_split (rows ! i)) = 3
             \<and> sha256 (files ! i) = PyStr (str_split (rows ! i) ! 0)
             \<and> size (files ! i) = PyStr (str_split (rows ! i) ! 1)
             \<and> name (files ! i) = PyStr (str_split (rows ! i) ! 2))"
proof -
  from assms have "scan (dirname dsc_path) False [] (splitlines content) = Inr files"
    by (simp add: parse_dsc_def)
  from scan_rows [OF this] obtain pre rows rest where
    l: "splitlines content = pre @ rows @ rest"
    and f: "files = map (entry_of (dirname dsc_path)) rows"
    and r: "\<forall>r \<in> set rows. startswith r '' '' \<and> length (str_split r) = 3"
    and e: "rest = [] \<or> \<not> startswith (hd rest) '' ''"
    and p: "\<forall>l \<in> set (butlast pre). \<not> startswith l header"
      "rows \<noteq> [] \<longrightarrow> pre \<noteq> [] \<and> startswith (last pre) header"
    by auto
  from f r have "length files = length rows
         \<and> (\<forall>i < length rows.
               startswith (rows ! i) '' '' \<and> length (str_split (rows ! i)) = 3
             \<and> sha256 (files ! i) = PyStr (str_split (rows ! i) ! 0)
             \<and> size (files ! i) = PyStr (str_split (rows ! i) ! 1)
             \<and> name (files ! i) = PyStr (str_split (rows ! i) ! 2))"
    by (simp add: entry_of_def)
  with l e p show ?thesis by blast
qed

theorem size_is_raw_token_witness:
  "\<exists>pre rows rest.
     splitlines foo_dsc = pre @ rows @ rest
   \<and> (rows \<noteq> [] \<longrightarrow> pre \<noteq> [] \<and> startswith (last pre) header)
   \<and> (\<forall>l \<in> set (butlast pre). \<not> startswith l header)
   \<and> (rest = [] \<or> \<not> startswith (hd rest) '' '')
   \<and> length [\<lparr>sha256 = PyStr ''abcdef0123456789'', size = PyStr ''100'',
               name = PyStr ''foo.tar.gz'', path = PyStr ''/tmp/pkg/foo.tar.gz''\<rparr>,
             \<lparr>sha256 = PyStr ''fedcba9876543210'', size = PyStr ''200'',
               name = PyStr ''foo.dsc'', path = PyStr ''/tmp/pkg/foo.dsc''\<rparr>] = length rows
   \<and> (\<forall>i < length rows.
         startswith (rows ! i) '' '' \<and> length (str_split (rows ! i)) = 3
       \<and> sha256 ([\<lparr>sha256 = PyStr ''abcdef0123456789'', size = PyStr ''100'',
               name = PyStr ''foo.tar.gz'', path = PyStr ''/tmp/pkg/foo.tar.gz''\<rparr>,
             \<lparr>sha256 = PyStr ''fedcba9876543210'', size = PyStr ''200'',
               name = PyStr ''foo.dsc'', path = PyStr ''/tmp/pkg/foo.dsc''\<rparr>] ! i)
           = PyStr (str_split (rows ! i) ! 0)
       \<and> size ([\<lparr>sha256 = PyStr ''abcdef0123456789'', size = PyStr ''100'',
               name = PyStr ''foo.tar.gz'', path = PyStr ''/tmp/pkg/foo.tar.gz''\<rparr>,
             \<lparr>sha256 = PyStr ''fedcba9876543210'', size = PyStr ''200'',
               name = PyStr ''foo.dsc'', path = PyStr ''/tmp/pkg/foo.dsc''\<rparr>] ! i)
           = PyStr (str_split (rows ! i) ! 1)
       \<and> name ([\<lparr>sha256 = PyStr ''abcdef0123456789'', size = PyStr ''100'',
               name = PyStr ''foo.tar.gz'', path = PyStr ''/tmp/pkg/foo.tar.gz''\<rparr>,
             \<lparr>sha256 = PyStr ''fedcba9876543210'', size = PyStr ''200'',
               name = PyStr ''foo.dsc'', path = PyStr ''/tmp/pkg/foo.dsc''\<rparr>] ! i)
           = PyStr (str_split (rows ! i) ! 2))"
proof (rule size_is_raw_token
    [where fs = example_fs and dsc_path = "''/tmp/pkg/foo.dsc''" and verb = False])
  show "example_fs ''/tmp/pkg/foo.dsc'' = Some foo_dsc"
    by (simp add: example_fs_def)
  show "parse_dsc example_fs ''/tmp/pkg/foo.dsc'' False =
     Inr [\<lparr>sha256 = PyStr ''abcdef0123456789'', size = PyStr ''100'',
            name = PyStr ''foo.tar.gz'', path = PyStr ''/tmp/pkg/foo.tar.gz''\<rparr>,
          \<lparr>sha256 = PyStr ''fedcba9876543210'', size = PyStr ''200'',
            name = PyStr ''foo.dsc'', path = PyStr ''/tmp/pkg/foo.dsc''\<rparr>]"
    by (rule parse_foo_dsc)
qed

theorem size_is_integer_counterexample:
  "parse_dsc example_fs ''/tmp/pkg/foo.dsc'' False =
     Inr [\<lparr>sha256 = PyStr ''abcdef0123456789'', size = PyStr ''100'',
            name = PyStr ''foo.tar.gz'', path = PyStr ''/tmp/pkg/foo.tar.gz''\<rparr>,
          \<lparr>sha256 = PyStr ''fedcba9876543210'', size = PyStr ''200'',
            name = PyStr ''foo.dsc'', path = PyStr ''/tmp/pkg/foo.dsc''\<rparr>]
   \<and> size \<lparr>sha256 = PyStr ''abcdef0123456789'', size = PyStr ''100'',
            name = PyStr ''foo.tar.gz'', path = PyStr ''/tmp/pkg/foo.tar.gz''\<rparr> = PyStr ''100''
   \<and> size \<lparr>sha256 = PyStr ''abcdef0123456789'', size = PyStr ''100'',
            name = PyStr ''foo.tar.gz'', path = PyStr ''/tmp/pkg/foo.tar.gz''\<rparr> \<noteq> PyInt 100"
  by (simp add: parse_foo_dsc)

text \<open>
  C9: the claim that any leading whitespace makes a line a data row fails for a tab: the
  line \<open>\tabcdef0123456789 100 foo.tar.gz\<close> after the header begins with whitespace and
  splits into three tokens, and it ends the section; the result is empty. The test in the
  loop is \<open>line.startswith(' ')\<close>.
  What holds: after the header line, the lines that begin with a space are the data rows,
  up to the first line that does not begin with a space; the result is that of converting
  exactly these rows in order, and no later line contributes.
\<close>

theorem section_rows_begin_with_space:
  assumes "fs dsc_path = Some content"
    and "splitlines content = pre @ hdr # rows @ rest"
    and "\<forall>l \<in> set pre. \<not> startswith l header"
    and "startswith hdr header"
    and "\<forall>r \<in> set rows. startswith r '' ''"
    and "rest = [] \<or> \<not> startswith (hd rest) '' ''"
  shows "parse_dsc fs dsc_path verb = convert_rows (dirname dsc_path) rows"
proof -
  have "parse_dsc fs dsc_path verb
        = scan (dirname dsc_path) False [] (pre @ hdr # rows @ rest)"
    using assms(1,2) by (simp add: parse_dsc_def)
  also have "\<dots> = convert_rows (dirname dsc_path) rows"
    using assms(3-6) by (rule scan_file)
  finally show ?thesis .
qed

theorem section_rows_begin_with_space_witness:
  "parse_dsc example_fs ''/tmp/pkg/foo.dsc'' False =
     Inr [\<lparr>sha256 = PyStr ''abcdef0123456789'', size = PyStr ''100'',
            name = PyStr ''foo.tar.gz'', path = PyStr ''/tmp/pkg/foo.tar.gz''\<rparr>,
          \<lparr>sha256 = PyStr ''fedcba9876543210'', size = PyStr ''200'',
            name = PyStr ''foo.dsc'', path = PyStr ''/tmp/pkg/foo.dsc''\<rparr>]"
proof -
  have "parse_dsc example_fs ''/tmp/pkg/foo.dsc'' False
        = convert_rows (dirname ''/tmp/pkg/foo.dsc'')
            ['' abcdef0123456789 100 foo.tar.gz'', '' fedcba9876543210 200 foo.dsc'']"
  proof (rule section_rows_begin_with_space
      [where content = foo_dsc and pre = "[]" and hdr = "''Checksums-Sha256:''"
         and rest = "[''Other-Field: x'']"])
    show "example_fs ''/tmp/pkg/foo.dsc'' = Some foo_dsc"
      by (simp add: example_fs_def)
    show "splitlines foo_dsc =
       [] @ ''Checksums-Sha256:'' #
       ['' abcdef0123456789 100 foo.tar.gz'', '' fedcba9876543210 200 foo.dsc''] @
       [''Other-Field: x'']"
      by (rule splitlines_foo_dsc)
    show "\<forall>l \<in> set ([]::string list). \<not> startswith l header" by simp
    show "startswith ''Checksums-Sha256:'' header" by (simp add: header_def)
    show "\<forall>r \<in> set ['' abcdef0123456789 100 foo.tar.gz'', '' fedcba9876543210 200 foo.dsc''].
            startswith r '' ''"
      by simp
    show "[''Other-Field: x''] = [] \<or> \<not> startswith (hd [''Other-Field: x'']) '' ''"
      by simp
  qed
  then show ?thesis
    by (simp add: data_row_def str_split_rows item2_def dirname_tmp_pkg join_def endswith_def)
qed

theorem tab_row_counterexample:
  "is_space (hd tab_row)
   \<and> str_split tab_row = [''abcdef0123456789'', ''100'', ''foo.tar.gz'']
   \<and> splitlines tab_dsc = [''Checksums-Sha256:'', tab_row, ''Other-Field: x'']
   \<and> parse_dsc example_fs ''/tmp/pkg/tab.dsc'' False = Inr []"
proof -
  have "splitlines tab_dsc = [''Checksums-Sha256:'', tab_row, ''Other-Field: x'']"
    by (simp add: splitlines_def tab_dsc_def tab_row_def text_of_def is_linebreak_def)
  moreover have "is_space (hd tab_row)" by (simp add: tab_row_def is_space_def)
  ultimately show ?thesis by (simp add: str_split_rows parse_tab_dsc)
qed

text \<open>
  C10: when the first section has ended at a line that does not begin with a space, a
  second header line further down and the rows after it contribute nothing: the result is
  that of the rows of the first section alone.
\<close>

theorem only_first_section:
  assumes "fs dsc_path = Some content"
    and "splitlines content = pre @ hdr # rows @ stop # mid @ second_hdr # second_rows @ rest"
    and "\<forall>l \<in> set pre. \<not> startswith l header"
    and "startswith hdr header"
    and "\<forall>r \<in> set rows. startswith r '' ''"
    and "\<not> startswith stop '' ''"
    and "startswith second_hdr header"
    and "\<forall>r \<in> set second_rows. startswith r '' ''"
  shows "parse_dsc fs dsc_path verb = convert_rows (dirname dsc_path) rows"
proof -
  let ?rest = "stop # mid @ second_hdr # second_rows @ rest"
  have "parse_dsc fs dsc_path verb
        = scan (dirname dsc_path) False [] (pre @ hdr # rows @ ?rest)"
    using assms(1,2) by (simp add: parse_dsc_def)
  also have "\<dots> = convert_rows (dirname dsc_path) rows"
    using assms(3-6) by (intro scan_file) auto
  finally show ?thesis .
qed

theorem only_first_section_witness:
  "parse_dsc example_fs ''/tmp/pkg/two.dsc'' False =
     Inr [\<lparr>sha256 = PyStr ''abcdef0123456789'', size = PyStr ''100'',
            name = PyStr ''foo.tar.gz'', path = PyStr ''/tmp/pkg/foo.tar.gz''\<rparr>]"
proof -
  have "parse_dsc example_fs ''/tmp/pkg/two.dsc'' False
        = convert_rows (dirname ''/tmp/pkg/two.dsc'') ['' abcdef0123456789 100 foo.tar.gz'']"
  proof (rule only_first_section
      [where content = two_sections_dsc and pre = "[]" and hdr = "''Checksums-Sha256:''"
         and stop = "''Files:''" and mid = "[]" and second_hdr = "''Checksums-Sha256:''"
         and second_rows = "['' fedcba9876543210 200 bar.tar.gz'']" and rest = "[]"])
    show "example_fs ''/tmp/pkg/two.dsc'' = Some two_sections_dsc"
      by (simp add: example_fs_def)
    show "splitlines two_sections_dsc =
       [] @ ''Checksums-Sha256:'' # ['' abcdef0123456789 100 foo.tar.gz''] @
       ''Files:'' # [] @ ''Checksums-Sha256:'' # ['' fedcba9876543210 200 bar.tar.gz''] @ []"
      by (rule splitlines_two_sections_dsc)
    show "\<forall>l \<in> set ([]::string list). \<not> startswith l header" by simp
    show "startswith ''Checksums-Sha256:'' header" by (simp add: header_def)
    show "\<forall>r \<in> set ['' abcdef0123456789 100 foo.tar.gz'']. startswith r '' ''" by simp
    show "\<not> startswith ''Files:'' '' ''" by simp
    show "startswith ''Checksums-Sha256:'' header" by (simp add: header_def)
    show "\<forall>r \<in> set ['' fedcba9876543210 200 bar.tar.gz'']. startswith r '' ''" by simp
  qed
  then show ?thesis
    by (simp add: data_row_def str_split_rows item2_def dirname_tmp_pkg join_def endswith_def)
qed

section \<open>Properties of the dispatcher\<close>


























lemma word_positional: "is_word a \<Longrightarrow> parse_optional a = Positional \<and> a \<noteq> ''--''"
  by (cases a) (auto simp: is_word_def parse_optional_def)

lemma word_not_option: "is_word a \<Longrightarrow> \<not> is_help a \<and> \<not> is_verbose a"
  by (auto simp: is_word_def is_help_def is_verbose_def)

lemma get_args_binary:
  assumes "is_word dv" and "is_word lv"
  shows "get_args lib [prog, ''binary'', dv, lv]
         = Inr \<lparr>command = Some ''binary'', verbose = False, dsc = Some dv, location = Some lv\<rparr>"
proof -
  have b: "parse_optional ''binary'' = Positional"
    by (simp add: parse_optional_def)
  have "\<not> list_ex (\<lambda>a. parse_optional a = Ambiguous)
            (takeWhile (\<lambda>a. a \<noteq> ''--'') [''binary'', dv, lv])"
    using assms b by (simp add: word_positional)
  moreover have "list_all plain [dv, lv]"
    using assms by (simp add: plain_def)
  moreover have "binary_parser None None False [dv, lv] = Inr (dv, lv)"
    using assms word_not_option by simp
  ultimately show ?thesis
    using b by (simp add: get_args_def parse_args_def)
qed




text \<open>
  C8: when the arguments parse to the sub-command \<open>binary\<close> and the file system has
  no file at the path given for \<open>dsc\<close>, the FileNotFoundError of \<open>open\<close> leaves
  \<open>parse_dsc\<close>, \<open>build_binary\<close> and \<open>main\<close> unhandled, and the process exits
  with status 1.
\<close>

theorem missing_control_file:
  assumes "get_args lib argv = Inr args"
    and "command args = Some ''binary''"
    and "dsc args = Some dv" and "location args = Some lv"
    and "fs dv = None"
  shows "main lib fs argv = Inl (FileNotFoundError dv) \<and> script lib fs argv = 1"
  using assms
  by (simp add: main_def script_def exit_status_def build_binary_def parse_dsc_def)

theorem missing_control_file_witness:
  "main lib_unused example_fs [''build_package.py'', ''binary'', ''nonexistent.dsc'', ''/tmp'']
     = Inl (FileNotFoundError ''nonexistent.dsc'')
   \<and> script lib_unused example_fs [''build_package.py'', ''binary'', ''nonexistent.dsc'', ''/tmp'']
     = 1"
proof (rule missing_control_file
    [where args = "\<lparr>command = Some ''binary'', verbose = False,
                     dsc = Some ''nonexistent.dsc'', location = Some ''/tmp''\<rparr>"
       and lv = "''/tmp''"])
  show "get_args lib_unused [''build_package.py'', ''binary'', ''nonexistent.dsc'', ''/tmp'']
        = Inr \<lparr>command = Some ''binary'', verbose = False,
                dsc = Some ''nonexistent.dsc'', location = Some ''/tmp''\<rparr>"
    by (rule get_args_binary) (simp_all add: is_word_def)
  show "command \<lparr>command = Some ''binary'', verbose = False,
                dsc = Some ''nonexistent.dsc'', location = Some ''/tmp''\<rparr> = Some ''binary''"
    by simp
  show "dsc \<lparr>command = Some ''binary'', verbose = False,
                dsc = Some ''nonexistent.dsc'', location = Some ''/tmp''\<rparr>
        = Some ''nonexistent.dsc''"
    by simp
  show "location \<lparr>command = Some ''binary'', verbose = False,
                dsc = Some ''nonexistent.dsc'', location = Some ''/tmp''\<rparr> = Some ''/tmp''"
    by simp
  show "example_fs ''nonexistent.dsc'' = None"
    by (simp add: example_fs_def)
qed

end
